theory Spec2Isabelle
  imports Complex_Main
begin

section \<open>Numbers, rounding and array slices\<close>

text \<open>
  The analytics core computes on JavaScript numbers. They are embedded as the reals:
  sums, products, quotients, \<open>Math.min\<close>, \<open>Math.max\<close>, \<open>Math.abs\<close> and
  \<open>Math.sqrt\<close> are the real operations. The rounding error of IEEE doubles, \<open>NaN\<close>
  and the infinities are outside this embedding. Every quotient of the embedded code has a
  divisor that the code keeps away from 0, by a test, by \<open>|| 1\<close>, by the defaults of
  a constructor, or because it is the length of an array that is not empty where the
  quotient is taken; the one quotient that a claim is about is checked in the embedding.
  Counts are integers.
\<close>

text \<open>\<open>Math.round\<close>: the nearest integer, a tie going up.\<close>

definition js_round :: "real \<Rightarrow> int" where
  "js_round x = \<lfloor>x + 1 / 2\<rfloor>"

text \<open>The idiom \<open>Math.round(x * 100) / 100\<close> of every reported metric.\<close>

definition round2 :: "real \<Rightarrow> real" where
  "round2 x = real_of_int (js_round (x * 100)) / 100"

text \<open>The idiom \<open>Math.round(x * 1000) / 1000\<close>.\<close>

definition round3 :: "real \<Rightarrow> real" where
  "round3 x = real_of_int (js_round (x * 1000)) / 1000"

text \<open>
  \<open>xs.slice(s, e)\<close>: a negative index counts from the end, and both indices are
  clamped to the array.
\<close>

definition slice :: "int \<Rightarrow> int \<Rightarrow> 'a list \<Rightarrow> 'a list" where
  "slice s e xs =
     (let n = int (length xs);
          a = (if s < 0 then max (n + s) 0 else min s n);
          b = (if e < 0 then max (n + e) 0 else min e n)
      in take (nat (b - a)) (drop (nat a) xs))"

text \<open>\<open>xs.slice(s)\<close>: to the end of the array.\<close>

definition slice_from :: "int \<Rightarrow> 'a list \<Rightarrow> 'a list" where
  "slice_from s xs = slice s (int (length xs)) xs"

text \<open>
  \<open>x || d\<close> on a number that may be absent: \<open>undefined\<close> and \<open>0\<close> are falsy.
\<close>

definition or_default :: "real option \<Rightarrow> real \<Rightarrow> real" where
  "or_default x d = (case x of None \<Rightarrow> d | Some v \<Rightarrow> if v = 0 then d else v)"

section \<open>Data preprocessor: the water quality index\<close>

record wqi_params =
  pH :: real
  turbidity :: real
  coliformCount :: real
  dissolvedOxygen :: real
  chlorineResidual :: real

definition pHScore :: "real \<Rightarrow> real" where
  "pHScore p =
     (if p \<ge> 6.5 \<and> p \<le> 8.5 then 100 - \<bar>p - 7.0\<bar> * 20
      else max 0 (50 - \<bar>p - 7.0\<bar> * 15))"

definition turbidityScore :: "real \<Rightarrow> real" where
  "turbidityScore t = max 0 (100 - t * 5)"

definition coliformScore :: "real \<Rightarrow> real" where
  "coliformScore c = max 0 (100 - c * 0.5)"

definition doScore :: "real \<Rightarrow> real" where
  "doScore d = min 100 (d * 12)"

definition chlorineScore :: "real \<Rightarrow> real" where
  "chlorineScore c = (if c \<ge> 0.2 then min 100 (c * 100) else c * 200)"

text \<open>The weighted average of the five sub-scores, before clamping and rounding.\<close>

definition wqi_raw :: "wqi_params \<Rightarrow> real" where
  "wqi_raw params =
     pHScore (pH params) * 0.15 + turbidityScore (turbidity params) * 0.20 +
     coliformScore (coliformCount params) * 0.30 +
     doScore (dissolvedOxygen params) * 0.20 +
     chlorineScore (chlorineResidual params) * 0.15"

definition computeWQI :: "wqi_params \<Rightarrow> int" where
  "computeWQI params = js_round (max 0 (min 100 (wqi_raw params)))"

section \<open>Dates\<close>

text \<open>
  A timestamp is an ISO-8601 string in the code. It is embedded by the time value
  (milliseconds since the epoch) that \<open>new Date(s)\<close> gives it: \<open>None\<close> is the
  \<open>Invalid Date\<close> of a string that does not parse. \<open>toISOString\<close> raises a
  \<open>RangeError\<close> on an invalid date; the string it returns for a valid one is embedded by
  its time value again. The local time zone of the host is a fixed offset \<open>tz\<close> in
  milliseconds.
\<close>

type_synonym date = "int option"

datatype js_error = RangeError

text \<open>\<open>TimeClip\<close> of the language: the range of a date, and truncation to an integer.\<close>

definition timeClip :: "real \<Rightarrow> date" where
  "timeClip t =
     (if \<bar>t\<bar> > 8640000000000000 then None
      else Some (if t < 0 then \<lceil>t\<rceil> else \<lfloor>t\<rfloor>))"

definition toISOString :: "date \<Rightarrow> js_error + int" where
  "toISOString d = (case d of None \<Rightarrow> Inl RangeError | Some t \<Rightarrow> Inr t)"

definition msPerHour :: int where
  "msPerHour = 3600000"

definition msPerDay :: int where
  "msPerDay = 86400000"

text \<open>
  The start of the bucket of a timestamp, lines 15 to 18 of \<open>timeBucket\<close>:
  \<open>setMinutes(0, 0, 0)\<close> and then
  \<open>setHours(Math.floor(ts.getHours() / bucketHours) * bucketHours)\<close>, both in local
  time. A bucket width of 0 makes the hour \<open>NaN\<close> and the date invalid.
\<close>

definition bucketStart :: "int \<Rightarrow> real \<Rightarrow> date \<Rightarrow> date" where
  "bucketStart tz bucketHours ts =
     (case ts of
        None \<Rightarrow> None
      | Some t \<Rightarrow>
          (let local = t + tz;
               day = local div msPerDay;
               hours = (local mod msPerDay) div msPerHour
           in case timeClip (real_of_int (day * msPerDay + hours * msPerHour - tz)) of
                None \<Rightarrow> None
              | Some _ \<Rightarrow>
                  if bucketHours = 0 then None
                  else
                    (let h = real_of_int \<lfloor>real_of_int hours / bucketHours\<rfloor> * bucketHours;
                         hour = (if h < 0 then \<lceil>h\<rceil> else \<lfloor>h\<rfloor>)
                     in timeClip (real_of_int (day * msPerDay + hour * msPerHour - tz)))))"

section \<open>Data preprocessor: time buckets and aggregates\<close>

text \<open>
  An object used as a dictionary is an association list in the order of insertion, which
  is the order \<open>Object.entries\<close> and \<open>Object.keys\<close> enumerate (no key of the data
  is an array index or a property inherited from \<open>Object.prototype\<close>).
\<close>

record admission =
  a_timestamp :: date
  a_disease :: string
  a_severity :: string
  a_regionId :: string
  a_patientAge :: real
  a_isAnomaly :: bool

record water_sample =
  w_timestamp :: date
  w_regionId :: string
  w_pH :: real
  w_turbidity :: real
  w_coliformCount :: real
  w_dissolvedOxygen :: real
  w_isAnomaly :: bool

text \<open>\<open>if (!buckets[key]) buckets[key] = []; buckets[key].push(record)\<close>\<close>

fun push_to :: "'k \<Rightarrow> 'r \<Rightarrow> ('k \<times> 'r list) list \<Rightarrow> ('k \<times> 'r list) list" where
  "push_to key r [] = [(key, [r])]"
| "push_to key r ((k, rs) # bs) =
     (if k = key then (k, rs @ [r]) # bs else (k, rs) # push_to key r bs)"

text \<open>The records held under a key of such a dictionary, none for an absent key.\<close>

definition records_at :: "('k \<times> 'r list) list \<Rightarrow> 'k \<Rightarrow> 'r list" where
  "records_at bs k = (case map_of bs k of None \<Rightarrow> [] | Some rs \<Rightarrow> rs)"

text \<open>
  The loop of \<open>timeBucket\<close> from a given dictionary on; \<open>ts\<close> reads the
  \<open>timestamp\<close> field of a record. The key of a bucket is the ISO string of its start.
\<close>

fun timeBucket_loop ::
  "int \<Rightarrow> ('r \<Rightarrow> date) \<Rightarrow> real \<Rightarrow> 'r list \<Rightarrow> (int \<times> 'r list) list
     \<Rightarrow> js_error + (int \<times> 'r list) list" where
  "timeBucket_loop tz ts bucketHours [] buckets = Inr buckets"
| "timeBucket_loop tz ts bucketHours (r # records) buckets =
     (case toISOString (bucketStart tz bucketHours (ts r)) of
        Inl e \<Rightarrow> Inl e
      | Inr key \<Rightarrow> timeBucket_loop tz ts bucketHours records (push_to key r buckets))"

definition timeBucket ::
  "int \<Rightarrow> ('r \<Rightarrow> date) \<Rightarrow> 'r list \<Rightarrow> real \<Rightarrow> js_error + (int \<times> 'r list) list" where
  "timeBucket tz ts records bucketHours = timeBucket_loop tz ts bucketHours records []"

type_synonym counts = "(string \<times> int) list"

text \<open>\<open>m[k] = (m[k] || 0) + 1\<close>\<close>

fun increment :: "string \<Rightarrow> counts \<Rightarrow> counts" where
  "increment k [] = [(k, 1)]"
| "increment k ((k', c) # m) =
     (if k' = k then (k', c + 1) # m else (k', c) # increment k m)"

text \<open>\<open>m[k] || 0\<close>\<close>

definition count_of :: "counts \<Rightarrow> string \<Rightarrow> int" where
  "count_of m k = (case map_of m k of None \<Rightarrow> 0 | Some c \<Rightarrow> c)"

text \<open>
  An aggregate of one bucket. Its timestamp is the key that \<open>toISOString\<close> returned
  for the start of the bucket, so it is always a date, and is kept as its time value.
\<close>

record time_bucket =
  timestamp :: int
  total :: int
  byDisease :: counts
  byRegion :: counts
  bySeverity :: counts
  avgAge :: int
  anomalyCount :: int

text \<open>The body of the loop over \<open>Object.entries(buckets)\<close> in \<open>aggregateAdmissions\<close>.\<close>

definition admission_bucket :: "int \<Rightarrow> admission list \<Rightarrow> time_bucket" where
  "admission_bucket key records =
     \<lparr>timestamp = key,
      total = int (length records),
      byDisease = fold (\<lambda>r m. increment (a_disease r) m) records [],
      byRegion = fold (\<lambda>r m. increment (a_regionId r) m) records [],
      bySeverity = fold (\<lambda>r m. increment (a_severity r) m) records
        [(''Mild'', 0), (''Moderate'', 0), (''Severe'', 0)],
      avgAge = js_round (sum_list (map a_patientAge records) / real (length records)),
      anomalyCount = int (length (filter a_isAnomaly records))\<rparr>"

definition aggregateAdmissions ::
  "int \<Rightarrow> admission list \<Rightarrow> real \<Rightarrow> js_error + time_bucket list" where
  "aggregateAdmissions tz admissions bucketHours =
     (case timeBucket tz a_timestamp admissions bucketHours of
        Inl e \<Rightarrow> Inl e
      | Inr buckets \<Rightarrow>
          Inr (sort_key timestamp (map (\<lambda>(key, records). admission_bucket key records) buckets)))"

record region_average =
  avgPH :: real
  avgTurbidity :: real
  avgColiform :: real
  avgDO :: real
  sampleCount :: int
  hasAnomaly :: bool

record water_bucket =
  wb_timestamp :: int
  regionAverages :: "(string \<times> region_average) list"

definition avg :: "real list \<Rightarrow> real" where
  "avg arr = sum_list arr / real (length arr)"

definition region_average_of :: "water_sample list \<Rightarrow> region_average" where
  "region_average_of samples =
     \<lparr>avgPH = round2 (avg (map w_pH samples)),
      avgTurbidity = round2 (avg (map w_turbidity samples)),
      avgColiform = real_of_int (js_round (avg (map w_coliformCount samples))),
      avgDO = round2 (avg (map w_dissolvedOxygen samples)),
      sampleCount = int (length samples),
      hasAnomaly = list_ex w_isAnomaly samples\<rparr>"

definition water_bucket_of :: "int \<Rightarrow> water_sample list \<Rightarrow> water_bucket" where
  "water_bucket_of key records =
     \<lparr>wb_timestamp = key,
      regionAverages =
        map (\<lambda>(regionId, samples). (regionId, region_average_of samples))
          (fold (\<lambda>r m. push_to (w_regionId r) r m) records [])\<rparr>"

definition aggregateWaterQuality ::
  "int \<Rightarrow> water_sample list \<Rightarrow> real \<Rightarrow> js_error + water_bucket list" where
  "aggregateWaterQuality tz waterData bucketHours =
     (case timeBucket tz w_timestamp waterData bucketHours of
        Inl e \<Rightarrow> Inl e
      | Inr buckets \<Rightarrow>
          Inr (sort_key wb_timestamp
                 (map (\<lambda>(key, records). water_bucket_of key records) buckets)))"

section \<open>Anomaly detector\<close>

record series_point =
  s_timestamp :: date
  s_value :: real

record detector =
  zThreshold :: real
  windowSize :: int

text \<open>The constructor: \<open>options.zThreshold || 2.0\<close>, \<open>options.windowSize || 20\<close>.\<close>

definition AnomalyDetector :: "real option \<Rightarrow> int option \<Rightarrow> detector" where
  "AnomalyDetector zThresholdOpt windowSizeOpt =
     \<lparr>zThreshold = or_default zThresholdOpt 2.0,
      windowSize = (case windowSizeOpt of None \<Rightarrow> 20 | Some w \<Rightarrow> if w = 0 then 20 else w)\<rparr>"

record stats_result =
  mean :: real
  std :: real

text \<open>\<open>_stats\<close>: mean and standard deviation of an array, both 0 for the empty one.\<close>

definition stats :: "real list \<Rightarrow> stats_result" where
  "stats values =
     (let n = length values
      in if n = 0 then \<lparr>mean = 0, std = 0\<rparr>
         else
           (let m = sum_list values / real n;
                variance = sum_list (map (\<lambda>v. (v - m)\<^sup>2) values) / real n
            in \<lparr>mean = m, std = sqrt variance\<rparr>))"

record anomaly_sample =
  an_timestamp :: date
  an_value :: real
  an_mean :: real
  an_std :: real
  zScore :: real
  isAnomaly :: bool

text \<open>The body of the loop of \<open>detectInSeries\<close> at index \<open>i\<close>, with \<open>i\<close> in range.\<close>

definition detect_at :: "detector \<Rightarrow> series_point list \<Rightarrow> nat \<Rightarrow> anomaly_sample" where
  "detect_at D series i =
     (let windowStart = max 0 (int i - windowSize D);
          windowValues = map s_value (slice windowStart (int i + 1) series);
          st = stats windowValues;
          z = (if std st = 0 then 0 else (s_value (series ! i) - mean st) / std st)
      in \<lparr>an_timestamp = s_timestamp (series ! i),
          an_value = s_value (series ! i),
          an_mean = round2 (mean st),
          an_std = round2 (std st),
          zScore = round2 z,
          isAnomaly = (\<bar>z\<bar> > zThreshold D)\<rparr>)"

definition detectInSeries :: "detector \<Rightarrow> series_point list \<Rightarrow> anomaly_sample list" where
  "detectInSeries D series = map (detect_at D series) [0..<length series]"

text \<open>
  \<open>[...new Set(xs)]\<close>: the elements of \<open>xs\<close> without repetition, in the order of
  their first occurrence.
\<close>

fun unique_from :: "'a list \<Rightarrow> 'a list \<Rightarrow> 'a list" where
  "unique_from seen [] = seen"
| "unique_from seen (x # xs) =
     (if x \<in> set seen then unique_from seen xs else unique_from (seen @ [x]) xs)"

definition unique :: "'a list \<Rightarrow> 'a list" where
  "unique xs = unique_from [] xs"

definition overallSeries :: "time_bucket list \<Rightarrow> series_point list" where
  "overallSeries aggregated =
     map (\<lambda>a. \<lparr>s_timestamp = Some (timestamp a), s_value = real_of_int (total a)\<rparr>) aggregated"

definition diseaseSeries :: "time_bucket list \<Rightarrow> string \<Rightarrow> series_point list" where
  "diseaseSeries aggregated disease =
     map (\<lambda>a. \<lparr>s_timestamp = Some (timestamp a),
                s_value = real_of_int (count_of (byDisease a) disease)\<rparr>) aggregated"

definition regionSeries :: "time_bucket list \<Rightarrow> string \<Rightarrow> series_point list" where
  "regionSeries aggregated regionId =
     map (\<lambda>a. \<lparr>s_timestamp = Some (timestamp a),
                s_value = real_of_int (count_of (byRegion a) regionId)\<rparr>) aggregated"

definition regionIds_of :: "time_bucket list \<Rightarrow> string list" where
  "regionIds_of aggregated = unique (concat (map (\<lambda>a. map fst (byRegion a)) aggregated))"

definition diseases :: "string list" where
  "diseases = [''Cholera'', ''Typhoid'', ''Dengue'', ''Malaria'']"

record anomalies =
  an_overall :: "anomaly_sample list option"
  an_byDisease :: "(string \<times> anomaly_sample list) list option"
  an_byRegion :: "(string \<times> anomaly_sample list) list"

definition detectAdmissionAnomalies :: "detector \<Rightarrow> time_bucket list \<Rightarrow> anomalies" where
  "detectAdmissionAnomalies D aggregated =
     \<lparr>an_overall = Some (detectInSeries D (overallSeries aggregated)),
      an_byDisease =
        Some (map (\<lambda>disease. (disease, detectInSeries D (diseaseSeries aggregated disease)))
                diseases),
      an_byRegion =
        map (\<lambda>regionId. (regionId, detectInSeries D (regionSeries aggregated regionId)))
          (regionIds_of aggregated)\<rparr>"

record corr_result =
  correlation :: real
  significance :: string

text \<open>
  The quotient of \<open>correlate\<close>, lines 139 to 144. So that a zero divisor is seen, the
  division is checked here: \<open>None\<close> stands for a quotient by zero.
\<close>

definition checked_div :: "real \<Rightarrow> real \<Rightarrow> real option" where
  "checked_div x y = (if y = 0 then None else Some (x / y))"

definition pearson :: "nat \<Rightarrow> real list \<Rightarrow> real list \<Rightarrow> real option" where
  "pearson n a b =
     (let statsA = stats a;
          statsB = stats b;
          sumProduct = sum_list (map2 (\<lambda>x y. (x - mean statsA) * (y - mean statsB)) a b)
      in checked_div sumProduct (real n * std statsA * std statsB))"

definition significance_of :: "real \<Rightarrow> string" where
  "significance_of absCorr =
     (if absCorr > 0.7 then ''strong''
      else if absCorr > 0.4 then ''moderate''
      else if absCorr > 0.2 then ''weak''
      else ''negligible'')"

definition correlate :: "series_point list \<Rightarrow> series_point list \<Rightarrow> corr_result option" where
  "correlate seriesA seriesB =
     (let n = min (length seriesA) (length seriesB)
      in if n < 3 then Some \<lparr>correlation = 0, significance = ''insufficient data''\<rparr>
         else
           (let a = map s_value (slice 0 (int n) seriesA);
                b = map s_value (slice 0 (int n) seriesB)
            in if std (stats a) = 0 \<or> std (stats b) = 0
               then Some \<lparr>correlation = 0, significance = ''no variance''\<rparr>
               else
                 (case pearson n a b of
                    None \<Rightarrow> None
                  | Some r \<Rightarrow>
                      Some \<lparr>correlation = round3 r, significance = significance_of \<bar>r\<bar>\<rparr>)))"

section \<open>Forecaster\<close>

record forecaster =
  alpha :: real
  trendAlpha :: real
  forecastHours :: real
  bucketHours :: real

record forecaster_options =
  opt_alpha :: "real option"
  opt_trendAlpha :: "real option"
  opt_forecastHours :: "real option"
  opt_bucketHours :: "real option"

text \<open>The constructor; a forecaster is only ever one that it built.\<close>

definition Forecaster :: "forecaster_options \<Rightarrow> forecaster" where
  "Forecaster options =
     \<lparr>alpha = or_default (opt_alpha options) 0.3,
      trendAlpha = or_default (opt_trendAlpha options) 0.1,
      forecastHours = or_default (opt_forecastHours options) 48,
      bucketHours = or_default (opt_bucketHours options) 6\<rparr>"

record holt_result =
  level :: real
  trend_of :: real
  smoothed :: "real list"

text \<open>
  The loop of \<open>_holtSmoothing\<close> over \<open>values[1..]\<close>, from the current level, trend
  and smoothed prefix.
\<close>

fun holt_loop :: "forecaster \<Rightarrow> real list \<Rightarrow> real \<Rightarrow> real \<Rightarrow> real list \<Rightarrow> holt_result" where
  "holt_loop F [] lv tr sm = \<lparr>level = lv, trend_of = tr, smoothed = sm\<rparr>"
| "holt_loop F (v # vs) lv tr sm =
     (let prevLevel = lv;
          lv' = alpha F * v + (1 - alpha F) * (prevLevel + tr);
          tr' = trendAlpha F * (lv' - prevLevel) + (1 - trendAlpha F) * tr
      in holt_loop F vs lv' tr' (sm @ [lv']))"

definition holtSmoothing :: "forecaster \<Rightarrow> real list \<Rightarrow> holt_result" where
  "holtSmoothing F values =
     (case values of
        [] \<Rightarrow> \<lparr>level = 0, trend_of = 0, smoothed = values\<rparr>
      | [v] \<Rightarrow> \<lparr>level = v, trend_of = 0, smoothed = values\<rparr>
      | v0 # v1 # rest \<Rightarrow> holt_loop F (v1 # rest) v0 (v1 - v0) [v0])"

text \<open>
  The standard error of \<open>_computeResiduals\<close>; \<open>forecast\<close> calls it on two arrays of
  the same length, at least 4.
\<close>

definition computeResiduals :: "real list \<Rightarrow> real list \<Rightarrow> real" where
  "computeResiduals actual sm =
     (let residuals = map2 (\<lambda>a s. a - s) actual sm;
          n = length residuals;
          mse = sum_list (map (\<lambda>r. r * r) residuals) / real n
      in sqrt mse)"

record prediction =
  p_timestamp :: int
  predicted :: real
  upper :: real
  lower :: real
  confidence :: int

text \<open>One turn of the loop that generates the forecast points.\<close>

definition predict_step ::
  "forecaster \<Rightarrow> date \<Rightarrow> real \<Rightarrow> real \<Rightarrow> real \<Rightarrow> int \<Rightarrow> js_error + prediction" where
  "predict_step F lastTimestamp lv tr standardError step =
     (let forecastValue = max 0 (lv + tr * real_of_int step);
          forecastTime =
            (case lastTimestamp of
               None \<Rightarrow> None
             | Some t \<Rightarrow>
                 timeClip (real_of_int t + real_of_int step * bucketHours F * 3600000));
          confidenceMultiplier = 1.96 * sqrt (real_of_int step)
      in case toISOString forecastTime of
           Inl e \<Rightarrow> Inl e
         | Inr isoString \<Rightarrow>
             Inr \<lparr>p_timestamp = isoString,
                  predicted = round2 forecastValue,
                  upper = round2 (forecastValue + standardError * confidenceMultiplier),
                  lower = round2 (max 0 (forecastValue - standardError * confidenceMultiplier)),
                  confidence = js_round (max 50 (95 - real_of_int step * 5))\<rparr>)"

fun predict_loop ::
  "forecaster \<Rightarrow> date \<Rightarrow> real \<Rightarrow> real \<Rightarrow> real \<Rightarrow> int list \<Rightarrow> js_error + prediction list" where
  "predict_loop F lastTimestamp lv tr se [] = Inr []"
| "predict_loop F lastTimestamp lv tr se (step # steps) =
     (case predict_step F lastTimestamp lv tr se step of
        Inl e \<Rightarrow> Inl e
      | Inr p \<Rightarrow>
          (case predict_loop F lastTimestamp lv tr se steps of
             Inl e \<Rightarrow> Inl e
           | Inr ps \<Rightarrow> Inr (p # ps)))"

record forecast_data =
  predictions :: "prediction list"
  trend :: string
  trendValue :: real
  currentLevel :: real
  standardError :: real
  smoothedHistory :: "(date \<times> real) list"

text \<open>
  The two shapes of object that \<open>forecast\<close> returns: \<open>Insufficient\<close> is the literal
  \<open>{predictions: [], confidence: {upper: [], lower: []}, trend: 'insufficient_data',
  smoothedHistory: []}\<close> of lines 65 to 70, which has no other field.
\<close>

datatype forecast_result = Insufficient | Forecast forecast_data

fun predictions_of :: "forecast_result \<Rightarrow> prediction list" where
  "predictions_of Insufficient = []"
| "predictions_of (Forecast f) = predictions f"

fun trend_name :: "forecast_result \<Rightarrow> string" where
  "trend_name Insufficient = ''insufficient_data''"
| "trend_name (Forecast f) = trend f"

definition trendDirection :: "real \<Rightarrow> string" where
  "trendDirection tr =
     (if tr > 0.5 then ''rising'' else if tr < - 0.5 then ''falling'' else ''stable'')"

definition forecast :: "forecaster \<Rightarrow> series_point list \<Rightarrow> js_error + forecast_result" where
  "forecast F series =
     (if length series < 4 then Inr Insufficient
      else
        (let values = map s_value series;
             timestamps = map s_timestamp series;
             h = holtSmoothing F values;
             se = computeResiduals values (smoothed h);
             forecastSteps = \<lceil>forecastHours F / bucketHours F\<rceil>;
             lastTimestamp = last timestamps
         in case predict_loop F lastTimestamp (level h) (trend_of h) se [1..forecastSteps] of
              Inl e \<Rightarrow> Inl e
            | Inr ps \<Rightarrow>
                Inr (Forecast
                  \<lparr>predictions = ps,
                   trend = trendDirection (trend_of h),
                   trendValue = round2 (trend_of h),
                   currentLevel = round2 (level h),
                   standardError = round2 se,
                   smoothedHistory = zip timestamps (map round2 (smoothed h))\<rparr>)))"

record forecast_all =
  overall :: forecast_result
  fa_byDisease :: "(string \<times> forecast_result) list"
  fa_byRegion :: "(string \<times> forecast_result) list"
  generatedAt :: int
  forecastHorizon :: real

text \<open>Forecasts for the entries of a list of named series, stopping at the first error.\<close>

fun forecast_each ::
  "forecaster \<Rightarrow> (string \<times> series_point list) list
     \<Rightarrow> js_error + (string \<times> forecast_result) list" where
  "forecast_each F [] = Inr []"
| "forecast_each F ((name, series) # rest) =
     (case forecast F series of
        Inl e \<Rightarrow> Inl e
      | Inr r \<Rightarrow>
          (case forecast_each F rest of
             Inl e \<Rightarrow> Inl e
           | Inr rs \<Rightarrow> Inr ((name, r) # rs)))"

text \<open>
  \<open>forecastAll\<close>; \<open>now\<close> is the time value that \<open>new Date()\<close> reads from the clock
  at line 158.
\<close>

definition forecastAll :: "forecaster \<Rightarrow> int \<Rightarrow> time_bucket list \<Rightarrow> js_error + forecast_all" where
  "forecastAll F now aggregated =
     (case forecast F (overallSeries aggregated) of
        Inl e \<Rightarrow> Inl e
      | Inr overallForecast \<Rightarrow>
          (case forecast_each F (map (\<lambda>d. (d, diseaseSeries aggregated d)) diseases) of
             Inl e \<Rightarrow> Inl e
           | Inr diseaseForecast \<Rightarrow>
               (case forecast_each F
                       (map (\<lambda>r. (r, regionSeries aggregated r)) (regionIds_of aggregated)) of
                  Inl e \<Rightarrow> Inl e
                | Inr regionForecast \<Rightarrow>
                    Inr \<lparr>overall = overallForecast,
                         fa_byDisease = diseaseForecast,
                         fa_byRegion = regionForecast,
                         generatedAt = now,
                         forecastHorizon = forecastHours F\<rparr>)))"

section \<open>Risk classifier\<close>

datatype risk_level = LOW | MODERATE | HIGH | CRITICAL

record risk_info =
  label :: string
  threshold :: real

definition RISK_LEVELS :: "risk_level \<Rightarrow> risk_info" where
  "RISK_LEVELS l =
     (case l of
        LOW \<Rightarrow> \<lparr>label = ''Low'', threshold = 0.25\<rparr>
      | MODERATE \<Rightarrow> \<lparr>label = ''Moderate'', threshold = 0.50\<rparr>
      | HIGH \<Rightarrow> \<lparr>label = ''High'', threshold = 0.75\<rparr>
      | CRITICAL \<Rightarrow> \<lparr>label = ''Critical'', threshold = 1.00\<rparr>)"

record weights =
  wt_admissionVelocity :: real
  wt_waterQuality :: real
  wt_severityIndex :: real
  wt_historicalRisk :: real
  wt_populationDensity :: real
  wt_trendScore :: real

definition the_weights :: weights where
  "the_weights =
     \<lparr>wt_admissionVelocity = 0.30, wt_waterQuality = 0.25, wt_severityIndex = 0.20,
      wt_historicalRisk = 0.10, wt_populationDensity = 0.08, wt_trendScore = 0.07\<rparr>"

record region =
  region_id :: string
  region_name :: string
  center :: "real \<times> real"
  population :: real
  historicalRisk :: real

text \<open>\<open>x || 1\<close> on a count.\<close>

definition or_one :: "int \<Rightarrow> int" where
  "or_one x = (if x = 0 then 1 else x)"

definition admissionVelocity :: "time_bucket list \<Rightarrow> string \<Rightarrow> real" where
  "admissionVelocity recentAdmissions regionId =
     (let last24h = slice_from (- 4) recentAdmissions;
          prev24h = slice (- 8) (- 4) recentAdmissions;
          recentCount = sum_list (map (\<lambda>a. count_of (byRegion a) regionId) last24h);
          prevCount = or_one (sum_list (map (\<lambda>a. count_of (byRegion a) regionId) prev24h));
          velocity = real_of_int (recentCount - prevCount) / real_of_int prevCount
      in min 1 (max 0 (velocity / 3)))"

definition waterQualityScore :: "water_bucket list \<Rightarrow> string \<Rightarrow> real" where
  "waterQualityScore waterAgg regionId =
     (let recentWater = slice_from (- 3) waterAgg
      in if length recentWater = 0 then 0.5
         else
           (let scores =
                  map (\<lambda>w. case map_of (regionAverages w) regionId of
                              None \<Rightarrow> 50
                            | Some d \<Rightarrow>
                                real_of_int (computeWQI
                                  \<lparr>pH = avgPH d, turbidity = avgTurbidity d,
                                   coliformCount = avgColiform d, dissolvedOxygen = avgDO d,
                                   chlorineResidual = 0.5\<rparr>))
                    recentWater;
                avgWQI = sum_list scores / real (length scores)
            in 1 - avgWQI / 100))"

definition severityIndex :: "time_bucket list \<Rightarrow> real" where
  "severityIndex recentAdmissions =
     (let last48h = slice_from (- 8) recentAdmissions;
          totalSevere = sum_list (map (\<lambda>a. count_of (bySeverity a) ''Severe'') last48h);
          tot = or_one (sum_list (map total last48h))
      in min 1 (real_of_int totalSevere / real_of_int tot * 3))"

definition trendScore :: "forecast_result option \<Rightarrow> real" where
  "trendScore fc =
     (case fc of
        None \<Rightarrow> 0.5
      | Some Insufficient \<Rightarrow> 0.5
      | Some (Forecast f) \<Rightarrow>
          if trend f = ''insufficient_data'' then 0.5
          else if trend f = ''rising'' then min 1 (0.6 + trendValue f * 0.1)
          else if trend f = ''falling'' then max 0 (0.4 - \<bar>trendValue f\<bar> * 0.1)
          else 0.5)"

text \<open>The weighted composite score of \<open>classifyRegion\<close>, lines 91 to 105.\<close>

definition compositeScore ::
  "region \<Rightarrow> time_bucket list \<Rightarrow> water_bucket list \<Rightarrow> forecast_result option \<Rightarrow> real" where
  "compositeScore reg admissionAgg waterAgg fc =
     admissionVelocity admissionAgg (region_id reg) * wt_admissionVelocity the_weights +
     waterQualityScore waterAgg (region_id reg) * wt_waterQuality the_weights +
     severityIndex admissionAgg * wt_severityIndex the_weights +
     historicalRisk reg * wt_historicalRisk the_weights +
     min 1 (population reg / 200000) * wt_populationDensity the_weights +
     trendScore fc * wt_trendScore the_weights"

text \<open>The classification of a score, lines 108 to 112.\<close>

definition riskLevel_of :: "real \<Rightarrow> risk_level" where
  "riskLevel_of riskScore =
     (if riskScore \<ge> threshold (RISK_LEVELS CRITICAL) * 0.75 then CRITICAL
      else if riskScore \<ge> threshold (RISK_LEVELS HIGH) * 0.65 then HIGH
      else if riskScore \<ge> threshold (RISK_LEVELS MODERATE) * 0.55 then MODERATE
      else LOW)"

record factors =
  f_admissionVelocity :: real
  f_waterQuality :: real
  f_severityIndex :: real
  f_historicalRisk :: real
  f_populationDensity :: real
  f_trendScore :: real

record classification =
  rc_regionId :: string
  rc_regionName :: string
  riskScore :: real
  riskLevel :: risk_level
  riskInfo :: risk_info
  rc_factors :: factors
  rc_population :: real
  rc_center :: "real \<times> real"

definition classifyRegion ::
  "region \<Rightarrow> time_bucket list \<Rightarrow> water_bucket list \<Rightarrow> forecast_result option
     \<Rightarrow> classification" where
  "classifyRegion reg admissionAgg waterAgg fc =
     (let score = compositeScore reg admissionAgg waterAgg fc;
          lev = riskLevel_of score
      in \<lparr>rc_regionId = region_id reg,
          rc_regionName = region_name reg,
          riskScore = round2 score,
          riskLevel = lev,
          riskInfo = RISK_LEVELS lev,
          rc_factors =
            \<lparr>f_admissionVelocity = round2 (admissionVelocity admissionAgg (region_id reg)),
             f_waterQuality = round2 (waterQualityScore waterAgg (region_id reg)),
             f_severityIndex = round2 (severityIndex admissionAgg),
             f_historicalRisk = round2 (historicalRisk reg),
             f_populationDensity = round2 (min 1 (population reg / 200000)),
             f_trendScore = round2 (trendScore fc)\<rparr>,
          rc_population = population reg,
          rc_center = center reg\<rparr>)"

text \<open>
  \<open>classifyAll\<close>: \<open>forecasts?.byRegion?.[region.id]\<close> for each region, then a stable
  sort by descending score.
\<close>

definition classifyAll ::
  "region list \<Rightarrow> time_bucket list \<Rightarrow> water_bucket list \<Rightarrow> forecast_all option
     \<Rightarrow> classification list" where
  "classifyAll regions admissionAgg waterAgg forecasts =
     sort_key (\<lambda>c. - riskScore c)
       (map (\<lambda>reg.
               classifyRegion reg admissionAgg waterAgg
                 (case forecasts of
                    None \<Rightarrow> None
                  | Some fa \<Rightarrow> map_of (fa_byRegion fa) (region_id reg)))
          regions)"

section \<open>Alert generator\<close>

record alert =
  alert_type :: string
  alert_severity :: string
  alert_timestamp :: date
  alert_regionId :: "string option"
  alert_disease :: "string option"
  alert_riskScore :: "real option"
  alert_zScore :: "real option"
  alert_value :: "real option"

text \<open>
  The fields of an alert that carry data; its \<open>id\<close>, \<open>title\<close> and \<open>message\<close>
  are texts rendered from them and from the region name.
\<close>

definition risk_alerts :: "int \<Rightarrow> classification list \<Rightarrow> alert list" where
  "risk_alerts now riskClassifications =
     concat (map (\<lambda>rc.
        if riskLevel rc = CRITICAL then
          [\<lparr>alert_type = ''CRITICAL_RISK'', alert_severity = ''critical'',
            alert_timestamp = Some now, alert_regionId = Some (rc_regionId rc),
            alert_disease = None, alert_riskScore = Some (riskScore rc),
            alert_zScore = None, alert_value = None\<rparr>]
        else if riskLevel rc = HIGH then
          [\<lparr>alert_type = ''HIGH_RISK'', alert_severity = ''high'',
            alert_timestamp = Some now, alert_regionId = Some (rc_regionId rc),
            alert_disease = None, alert_riskScore = Some (riskScore rc),
            alert_zScore = None, alert_value = None\<rparr>]
        else []) riskClassifications)"

definition anomaly_alerts :: "anomaly_sample list option \<Rightarrow> alert list" where
  "anomaly_alerts ov =
     (case ov of
        None \<Rightarrow> []
      | Some samples \<Rightarrow>
          map (\<lambda>anomaly.
                 \<lparr>alert_type = ''ANOMALY_DETECTED'',
                  alert_severity = (if \<bar>zScore anomaly\<bar> > 3 then ''critical'' else ''high''),
                  alert_timestamp = an_timestamp anomaly, alert_regionId = None,
                  alert_disease = None, alert_riskScore = None,
                  alert_zScore = Some (zScore anomaly),
                  alert_value = Some (an_value anomaly)\<rparr>)
            (slice_from (- 5) (filter isAnomaly samples)))"

definition disease_alerts :: "(string \<times> anomaly_sample list) list option \<Rightarrow> alert list" where
  "disease_alerts bd =
     (case bd of
        None \<Rightarrow> []
      | Some entries \<Rightarrow>
          concat (map (\<lambda>(disease, samples).
             map (\<lambda>anomaly.
                    \<lparr>alert_type = ''DISEASE_SPIKE'', alert_severity = ''high'',
                     alert_timestamp = an_timestamp anomaly, alert_regionId = None,
                     alert_disease = Some disease, alert_riskScore = None,
                     alert_zScore = Some (zScore anomaly),
                     alert_value = Some (an_value anomaly)\<rparr>)
               (slice_from (- 2) (filter isAnomaly samples))) entries))"

text \<open>
  The comparator of the final sort, lines 219 to 222: \<open>severityOrder[s] || 3\<close> with
  \<open>severityOrder = {critical: 0, high: 1, moderate: 2, low: 3}\<close>.
\<close>

definition severityOrder :: "string \<Rightarrow> int option" where
  "severityOrder s =
     (if s = ''critical'' then Some 0
      else if s = ''high'' then Some 1
      else if s = ''moderate'' then Some 2
      else if s = ''low'' then Some 3
      else None)"

definition severityRank :: "string \<Rightarrow> int" where
  "severityRank s = (case severityOrder s of None \<Rightarrow> 3 | Some r \<Rightarrow> if r = 0 then 3 else r)"

text \<open>
  \<open>generateAlerts\<close>; \<open>now\<close> is the time value read from the clock at line 151.
  \<open>Array.prototype.sort\<close> is stable, and the comparator is the difference of the ranks.
\<close>

definition generateAlerts :: "int \<Rightarrow> classification list \<Rightarrow> anomalies option \<Rightarrow> alert list" where
  "generateAlerts now riskClassifications anoms =
     sort_key (\<lambda>a. severityRank (alert_severity a))
       (risk_alerts now riskClassifications @
        anomaly_alerts (case anoms of None \<Rightarrow> None | Some a \<Rightarrow> an_overall a) @
        disease_alerts (case anoms of None \<Rightarrow> None | Some a \<Rightarrow> an_byDisease a))"

section \<open>The pipeline\<close>

record snapshot =
  sn_admissionAgg :: "time_bucket list"
  sn_waterAgg :: "water_bucket list"
  sn_anomalies :: anomalies
  sn_forecasts :: forecast_all
  sn_riskClassifications :: "classification list"
  sn_alerts :: "alert list"

text \<open>
  The analytics of \<open>loadAndProcess\<close> on the two parsed data files, with the two
  readings of the clock that a run makes: \<open>clockF\<close> in \<open>forecastAll\<close> and
  \<open>clockA\<close> in \<open>generateAlerts\<close>. The water anomalies and the correlations, which
  the run also computes, enter none of the outputs kept here and raise nothing.
\<close>

definition loadAndProcess ::
  "int \<Rightarrow> int \<Rightarrow> int \<Rightarrow> region list \<Rightarrow> admission list \<Rightarrow> water_sample list
     \<Rightarrow> js_error + snapshot" where
  "loadAndProcess tz clockF clockA regions admissions waterQuality =
     (case aggregateAdmissions tz admissions 6 of
        Inl e \<Rightarrow> Inl e
      | Inr admissionAgg \<Rightarrow>
          (case aggregateWaterQuality tz waterQuality 24 of
             Inl e \<Rightarrow> Inl e
           | Inr waterAgg \<Rightarrow>
               (let det = AnomalyDetector (Some 2.0) (Some 20);
                    anoms = detectAdmissionAnomalies det admissionAgg;
                    fc = Forecaster \<lparr>opt_alpha = Some 0.3, opt_trendAlpha = Some 0.1,
                           opt_forecastHours = None, opt_bucketHours = None\<rparr>
                in case forecastAll fc clockF admissionAgg of
                     Inl e \<Rightarrow> Inl e
                   | Inr forecasts \<Rightarrow>
                       (let rcs = classifyAll regions admissionAgg waterAgg (Some forecasts)
                        in Inr \<lparr>sn_admissionAgg = admissionAgg,
                                sn_waterAgg = waterAgg,
                                sn_anomalies = anoms,
                                sn_forecasts = forecasts,
                                sn_riskClassifications = rcs,
                                sn_alerts = generateAlerts clockA rcs (Some anoms)\<rparr>))))"

text \<open>An alert of one of the two risk types with its timestamp replaced.\<close>

definition retime :: "int \<Rightarrow> alert \<Rightarrow> alert" where
  "retime clockA a =
     (if alert_type a = ''CRITICAL_RISK'' \<or> alert_type a = ''HIGH_RISK''
      then a\<lparr>alert_timestamp := Some clockA\<rparr> else a)"

text \<open>
  A snapshot with its two clock readings replaced: the \<open>generatedAt\<close> field of the
  forecasts, and the timestamp of the alerts of the two risk types.
\<close>

definition with_clock :: "int \<Rightarrow> int \<Rightarrow> snapshot \<Rightarrow> snapshot" where
  "with_clock clockF clockA s =
     s\<lparr>sn_forecasts := (sn_forecasts s)\<lparr>generatedAt := clockF\<rparr>,
       sn_alerts := map (retime clockA) (sn_alerts s)\<rparr>"


section \<open>Properties of the water quality index\<close>

lemma js_round_mono: "x \<le> y \<Longrightarrow> js_round x \<le> js_round y"
  unfolding js_round_def by (intro floor_mono) simp

lemma js_round_of_int [simp]: "js_round (of_int n) = n"
  unfolding js_round_def by linarith

lemma js_round_nonneg: "0 \<le> x \<Longrightarrow> 0 \<le> js_round x"
  using js_round_mono [of 0 x] js_round_of_int [of 0] by simp

lemma round2_mono: "x \<le> y \<Longrightarrow> round2 x \<le> round2 y"
  unfolding round2_def by (simp add: js_round_mono divide_right_mono)

lemma round2_nonneg: "0 \<le> x \<Longrightarrow> 0 \<le> round2 x"
  unfolding round2_def by (simp add: js_round_nonneg)

lemma turbidityScore_antimono: "t \<le> t' \<Longrightarrow> turbidityScore t' \<le> turbidityScore t"
  unfolding turbidityScore_def by simp

lemma coliformScore_antimono: "c \<le> c' \<Longrightarrow> coliformScore c' \<le> coliformScore c"
  unfolding coliformScore_def by simp

lemma computeWQI_range: "0 \<le> computeWQI params \<and> computeWQI params \<le> 100"
proof -
  let ?w = "max 0 (min 100 (wqi_raw params))"
  have "0 \<le> ?w" and "?w \<le> 100" by simp_all
  then have "js_round 0 \<le> js_round ?w" and "js_round ?w \<le> js_round 100"
    by (simp_all only: js_round_mono)
  moreover have "js_round 0 = 0" and "js_round 100 = 100"
    using js_round_of_int [of 0] js_round_of_int [of 100] by simp_all
  ultimately show ?thesis by (simp add: computeWQI_def)
qed

text \<open>
  C9: the index never increases when turbidity alone increases, never increases when the
  coliform count alone increases, always lies between 0 and 100, and a coliform count of
  10000 brings the coliform sub-score to 0.
\<close>

theorem computeWQI_monotone_clamped:
  "(t \<le> t' \<longrightarrow>
      computeWQI (params\<lparr>turbidity := t'\<rparr>) \<le> computeWQI (params\<lparr>turbidity := t\<rparr>)) \<and>
   (c \<le> c' \<longrightarrow>
      computeWQI (params\<lparr>coliformCount := c'\<rparr>) \<le> computeWQI (params\<lparr>coliformCount := c\<rparr>)) \<and>
   0 \<le> computeWQI params \<and> computeWQI params \<le> 100 \<and>
   coliformScore 10000 = 0"
proof (intro conjI impI)
  assume le: "t \<le> t'"
  have "wqi_raw (params\<lparr>turbidity := t'\<rparr>) \<le> wqi_raw (params\<lparr>turbidity := t\<rparr>)"
    using turbidityScore_antimono [OF le] by (simp add: wqi_raw_def)
  then show "computeWQI (params\<lparr>turbidity := t'\<rparr>) \<le> computeWQI (params\<lparr>turbidity := t\<rparr>)"
    unfolding computeWQI_def by (intro js_round_mono) simp
next
  assume le: "c \<le> c'"
  have "wqi_raw (params\<lparr>coliformCount := c'\<rparr>) \<le> wqi_raw (params\<lparr>coliformCount := c\<rparr>)"
    using coliformScore_antimono [OF le] by (simp add: wqi_raw_def)
  then show "computeWQI (params\<lparr>coliformCount := c'\<rparr>)
      \<le> computeWQI (params\<lparr>coliformCount := c\<rparr>)"
    unfolding computeWQI_def by (intro js_round_mono) simp
next
  show "0 \<le> computeWQI params" using computeWQI_range by simp
next
  show "computeWQI params \<le> 100" using computeWQI_range by simp
next
  show "coliformScore 10000 = 0" by (simp add: coliformScore_def)
qed

theorem computeWQI_monotone_clamped_witness:
  "computeWQI \<lparr>pH = 7, turbidity = 10, coliformCount = 10, dissolvedOxygen = 8,
       chlorineResidual = 1 / 2\<rparr>
     \<le> computeWQI \<lparr>pH = 7, turbidity = 2, coliformCount = 10, dissolvedOxygen = 8,
       chlorineResidual = 1 / 2\<rparr> \<and>
   computeWQI \<lparr>pH = 7, turbidity = 2, coliformCount = 10000, dissolvedOxygen = 8,
       chlorineResidual = 1 / 2\<rparr>
     \<le> computeWQI \<lparr>pH = 7, turbidity = 2, coliformCount = 10, dissolvedOxygen = 8,
       chlorineResidual = 1 / 2\<rparr>"
  using computeWQI_monotone_clamped [of 2 10
      "\<lparr>pH = 7, turbidity = 2, coliformCount = 10, dissolvedOxygen = 8,
        chlorineResidual = 1 / 2\<rparr>" 10 10000]
  by simp

section \<open>Properties of the forecaster on short series\<close>

text \<open>
  C4: on a series of 0, 1, 2 or 3 points \<open>forecast\<close> raises nothing and returns a
  result whose predictions are empty and whose trend is \<open>insufficient_data\<close>.
\<close>

theorem forecast_insufficient_data:
  "length series < 4 \<Longrightarrow>
     \<exists>r. forecast F series = Inr r \<and> predictions_of r = [] \<and>
         trend_name r = ''insufficient_data''"
  by (simp add: forecast_def)

theorem forecast_insufficient_data_witness:
  "(\<exists>r. forecast (Forecaster \<lparr>opt_alpha = None, opt_trendAlpha = None,
            opt_forecastHours = None, opt_bucketHours = None\<rparr>) [] = Inr r \<and>
        predictions_of r = [] \<and> trend_name r = ''insufficient_data'') \<and>
   (\<exists>r. forecast (Forecaster \<lparr>opt_alpha = None, opt_trendAlpha = None,
            opt_forecastHours = None, opt_bucketHours = None\<rparr>)
          [\<lparr>s_timestamp = None, s_value = 5\<rparr>] = Inr r \<and>
        predictions_of r = [] \<and> trend_name r = ''insufficient_data'') \<and>
   (\<exists>r. forecast (Forecaster \<lparr>opt_alpha = None, opt_trendAlpha = None,
            opt_forecastHours = None, opt_bucketHours = None\<rparr>)
          [\<lparr>s_timestamp = Some 0, s_value = 5\<rparr>, \<lparr>s_timestamp = None, s_value = 7\<rparr>] = Inr r \<and>
        predictions_of r = [] \<and> trend_name r = ''insufficient_data'') \<and>
   (\<exists>r. forecast (Forecaster \<lparr>opt_alpha = None, opt_trendAlpha = None,
            opt_forecastHours = None, opt_bucketHours = None\<rparr>)
          [\<lparr>s_timestamp = Some 0, s_value = 5\<rparr>, \<lparr>s_timestamp = Some 21600000, s_value = 7\<rparr>,
           \<lparr>s_timestamp = Some 43200000, s_value = 9\<rparr>] = Inr r \<and>
        predictions_of r = [] \<and> trend_name r = ''insufficient_data'')"
  by (intro conjI forecast_insufficient_data) simp_all

section \<open>Properties of the risk classifier\<close>



section \<open>Properties of the alert generator\<close>

text \<open>
  C1: the alerts are to come out with every critical alert before every high one. On a
  critical region followed by a high region the code returns the high alert first: the
  rank 0 of \<open>critical\<close> is falsy, and \<open>|| 3\<close> replaces it by 3.
\<close>

theorem generateAlerts_critical_after_high:
  "map alert_severity
     (generateAlerts 0
        [\<lparr>rc_regionId = ''region-1'', rc_regionName = ''Central District'', riskScore = 0.87,
          riskLevel = CRITICAL, riskInfo = RISK_LEVELS CRITICAL,
          rc_factors = \<lparr>f_admissionVelocity = 1, f_waterQuality = 0.9, f_severityIndex = 1,
            f_historicalRisk = 0.35, f_populationDensity = 0.93, f_trendScore = 0.5\<rparr>,
          rc_population = 185000, rc_center = (28.6139, 77.2090)\<rparr>,
         \<lparr>rc_regionId = ''region-2'', rc_regionName = ''North Zone'', riskScore = 0.71,
          riskLevel = HIGH, riskInfo = RISK_LEVELS HIGH,
          rc_factors = \<lparr>f_admissionVelocity = 0.5, f_waterQuality = 0.9, f_severityIndex = 1,
            f_historicalRisk = 0.42, f_populationDensity = 0.71, f_trendScore = 0.5\<rparr>,
          rc_population = 142000, rc_center = (28.65, 77.22)\<rparr>]
        (Some \<lparr>an_overall = Some [],
           an_byDisease = Some [(''Cholera'', []), (''Typhoid'', []), (''Dengue'', []),
             (''Malaria'', [])],
           an_byRegion = []\<rparr>))
   = [''high'', ''critical'']"
  by (simp add: generateAlerts_def risk_alerts_def anomaly_alerts_def disease_alerts_def
      slice_from_def slice_def severityRank_def severityOrder_def)

section \<open>Properties of the correlation routine\<close>

lemma slice_0_take: "n \<le> length xs \<Longrightarrow> slice 0 (int n) xs = take n xs"
  by (simp add: slice_def Let_def min_def)

lemma sqrt_4: "sqrt 4 = 2"
  using real_sqrt_abs [of 2] by simp

lemma stats_02346: "stats [0, 2, 3, 4, 6] = \<lparr>mean = 3, std = 2\<rparr>"
  by (simp add: stats_def Let_def power2_eq_square sqrt_4)

lemma stats_04362: "stats [0, 4, 3, 6, 2] = \<lparr>mean = 3, std = 2\<rparr>"
  by (simp add: stats_def Let_def power2_eq_square sqrt_4)

lemma stats_06342: "stats [0, 6, 3, 4, 2] = \<lparr>mean = 3, std = 2\<rparr>"
  by (simp add: stats_def Let_def power2_eq_square sqrt_4)



text \<open>
  C5, as amended: when \<open>correlate\<close> computes a coefficient \<open>r\<close> (at least 3 paired
  samples, both standard deviations non-zero), it reports \<open>r\<close> rounded to three decimals,
  and the bucket is decided by the unrounded \<open>\<bar>r\<bar>\<close> with strict lower bounds: strong
  above 0.7, moderate above 0.4 up to 0.7, weak above 0.2 up to 0.4, negligible up to 0.2.
\<close>

theorem correlate_buckets:
  assumes "3 \<le> min (length seriesA) (length seriesB)"
    and "a = map s_value (take (min (length seriesA) (length seriesB)) seriesA)"
    and "b = map s_value (take (min (length seriesA) (length seriesB)) seriesB)"
    and "std (stats a) \<noteq> 0" and "std (stats b) \<noteq> 0"
  shows "\<exists>r res. pearson (min (length seriesA) (length seriesB)) a b = Some r \<and>
      correlate seriesA seriesB = Some res \<and> correlation res = round3 r \<and>
      (significance res = ''strong'') = (\<bar>r\<bar> > 0.7) \<and>
      (significance res = ''moderate'') = (0.4 < \<bar>r\<bar> \<and> \<bar>r\<bar> \<le> 0.7) \<and>
      (significance res = ''weak'') = (0.2 < \<bar>r\<bar> \<and> \<bar>r\<bar> \<le> 0.4) \<and>
      (significance res = ''negligible'') = (\<bar>r\<bar> \<le> 0.2)"
proof -
  let ?n = "min (length seriesA) (length seriesB)"
  from assms(1) have "real ?n \<noteq> 0"
    by linarith
  with assms(4,5) have "real ?n * std (stats a) * std (stats b) \<noteq> 0"
    by simp
  then obtain r where r: "pearson ?n a b = Some r"
    by (simp add: pearson_def Let_def checked_div_def)
  from assms(1) have "\<not> min (length seriesA) (length seriesB) < 3"
    by linarith
  then have "correlate seriesA seriesB =
      Some \<lparr>correlation = round3 r, significance = significance_of \<bar>r\<bar>\<rparr>"
    using assms(2-5) r by (simp add: correlate_def Let_def slice_0_take)
  then show ?thesis
    using r by (auto simp add: significance_of_def)
qed

theorem correlate_buckets_witness:
  "\<exists>r res. pearson 3 [1, 2, 3] [2, 4, 9] = Some r \<and>
      correlate
        [\<lparr>s_timestamp = Some 0, s_value = 1\<rparr>, \<lparr>s_timestamp = Some 1, s_value = 2\<rparr>,
         \<lparr>s_timestamp = Some 2, s_value = 3\<rparr>]
        [\<lparr>s_timestamp = Some 0, s_value = 2\<rparr>, \<lparr>s_timestamp = Some 1, s_value = 4\<rparr>,
         \<lparr>s_timestamp = Some 2, s_value = 9\<rparr>] = Some res \<and>
      correlation res = round3 r \<and>
      (significance res = ''strong'') = (\<bar>r\<bar> > 0.7) \<and>
      (significance res = ''moderate'') = (0.4 < \<bar>r\<bar> \<and> \<bar>r\<bar> \<le> 0.7) \<and>
      (significance res = ''weak'') = (0.2 < \<bar>r\<bar> \<and> \<bar>r\<bar> \<le> 0.4) \<and>
      (significance res = ''negligible'') = (\<bar>r\<bar> \<le> 0.2)"
proof -
  let ?A = "[\<lparr>s_timestamp = Some 0, s_value = 1\<rparr>, \<lparr>s_timestamp = Some 1, s_value = 2\<rparr>,
      \<lparr>s_timestamp = Some 2, s_value = 3\<rparr>]"
  let ?B = "[\<lparr>s_timestamp = Some 0, s_value = 2\<rparr>, \<lparr>s_timestamp = Some 1, s_value = 4\<rparr>,
      \<lparr>s_timestamp = Some 2, s_value = 9\<rparr>]"
  have n: "min (length ?A) (length ?B) = 3"
    by simp
  have h1: "3 \<le> min (length ?A) (length ?B)"
    by simp
  have h2: "[1, 2, 3] = map s_value (take (min (length ?A) (length ?B)) ?A)"
    by simp
  have h3: "[2, 4, 9] = map s_value (take (min (length ?A) (length ?B)) ?B)"
    by simp
  have h4: "std (stats [1, 2, 3]) \<noteq> 0" and h5: "std (stats [2, 4, 9]) \<noteq> 0"
    by (simp_all add: stats_def Let_def power2_eq_square)
  show ?thesis
    using correlate_buckets [OF h1 h2 h3 h4 h5] unfolding n .
qed

text \<open>
  C5 as stated puts a coefficient of exactly 0.4 in the bucket moderate and one of exactly
  0.2 in the bucket weak. The code reports weak and negligible.
\<close>

theorem correlate_boundary_counterexample:
  "pearson 5 [0, 2, 3, 4, 6] [0, 4, 3, 6, 2] = Some 0.4 \<and>
   correlate
     [\<lparr>s_timestamp = None, s_value = 0\<rparr>, \<lparr>s_timestamp = None, s_value = 2\<rparr>,
      \<lparr>s_timestamp = None, s_value = 3\<rparr>, \<lparr>s_timestamp = None, s_value = 4\<rparr>,
      \<lparr>s_timestamp = None, s_value = 6\<rparr>]
     [\<lparr>s_timestamp = None, s_value = 0\<rparr>, \<lparr>s_timestamp = None, s_value = 4\<rparr>,
      \<lparr>s_timestamp = None, s_value = 3\<rparr>, \<lparr>s_timestamp = None, s_value = 6\<rparr>,
      \<lparr>s_timestamp = None, s_value = 2\<rparr>]
     = Some \<lparr>correlation = 0.4, significance = ''weak''\<rparr> \<and>
   pearson 5 [0, 2, 3, 4, 6] [0, 6, 3, 4, 2] = Some 0.2 \<and>
   correlate
     [\<lparr>s_timestamp = None, s_value = 0\<rparr>, \<lparr>s_timestamp = None, s_value = 2\<rparr>,
      \<lparr>s_timestamp = None, s_value = 3\<rparr>, \<lparr>s_timestamp = None, s_value = 4\<rparr>,
      \<lparr>s_timestamp = None, s_value = 6\<rparr>]
     [\<lparr>s_timestamp = None, s_value = 0\<rparr>, \<lparr>s_timestamp = None, s_value = 6\<rparr>,
      \<lparr>s_timestamp = None, s_value = 3\<rparr>, \<lparr>s_timestamp = None, s_value = 4\<rparr>,
      \<lparr>s_timestamp = None, s_value = 2\<rparr>]
     = Some \<lparr>correlation = 0.2, significance = ''negligible''\<rparr>"
  by (simp add: correlate_def slice_def Let_def stats_02346 stats_04362 stats_06342
      pearson_def checked_div_def significance_of_def round3_def js_round_def)

section \<open>Properties of the forecast\<close>

lemma computeResiduals_nonneg: "0 \<le> computeResiduals actual sm"
  unfolding computeResiduals_def Let_def
  by (intro real_sqrt_ge_zero divide_nonneg_nonneg sum_list_nonneg) auto

lemma predict_step_bounds:
  assumes "predict_step F lt lv tr se step = Inr p" and "0 \<le> se" and "0 \<le> step"
  shows "lower p \<le> predicted p \<and> predicted p \<le> upper p \<and> 0 \<le> lower p"
proof -
  let ?fv = "max 0 (lv + tr * real_of_int step)"
  let ?w = "se * (1.96 * sqrt (real_of_int step))"
  have w: "0 \<le> ?w"
    using assms(2,3) by simp
  from assms(1) have p: "predicted p = round2 ?fv" "upper p = round2 (?fv + ?w)"
    "lower p = round2 (max 0 (?fv - ?w))"
    by (auto simp add: predict_step_def Let_def split: sum.splits)
  have "max 0 (?fv - ?w) \<le> ?fv"
    using w by simp
  then have "lower p \<le> predicted p"
    unfolding p by (rule round2_mono)
  moreover have "predicted p \<le> upper p"
    unfolding p using w by (intro round2_mono) simp
  moreover have "0 \<le> lower p"
    unfolding p by (intro round2_nonneg) simp
  ultimately show ?thesis by simp
qed

lemma predict_loop_members:
  "predict_loop F lt lv tr se steps = Inr ps \<Longrightarrow> p \<in> set ps \<Longrightarrow>
     \<exists>step\<in>set steps. predict_step F lt lv tr se step = Inr p"
proof (induction steps arbitrary: ps)
  case Nil
  then show ?case by simp
next
  case (Cons step steps)
  then show ?case
    by (auto split: sum.splits)
qed

lemma predict_loop_returns:
  "\<forall>step\<in>set steps. \<exists>p. predict_step F lt lv tr se step = Inr p \<Longrightarrow>
     \<exists>ps. predict_loop F lt lv tr se steps = Inr ps \<and> length ps = length steps"
proof (induction steps)
  case Nil
  then show ?case by simp
next
  case (Cons step steps)
  then obtain p ps where "predict_step F lt lv tr se step = Inr p"
    and "predict_loop F lt lv tr se steps = Inr ps" and "length ps = length steps"
    by auto
  then show ?case by simp
qed

lemma predict_step_returns:
  assumes "\<bar>real_of_int t + real_of_int step * bucketHours F * 3600000\<bar> \<le> 8640000000000000"
  shows "\<exists>p. predict_step F (Some t) lv tr se step = Inr p"
  using assms by (simp add: predict_step_def Let_def timeClip_def toISOString_def)

text \<open>
  On a series of at least 4 points whose last timestamp is a date, and whose forecast
  times stay in the range of a date, \<open>forecast\<close> returns a full result with one
  prediction for each step.
\<close>

lemma forecast_returns:
  assumes "4 \<le> length series" and "s_timestamp (last series) = Some t"
    and "\<forall>step\<in>{1..\<lceil>forecastHours F / bucketHours F\<rceil>}.
      \<bar>real_of_int t + real_of_int step * bucketHours F * 3600000\<bar> \<le> 8640000000000000"
  shows "\<exists>fd. forecast F series = Inr (Forecast fd) \<and>
      length (predictions fd) = nat \<lceil>forecastHours F / bucketHours F\<rceil>"
proof -
  let ?h = "holtSmoothing F (map s_value series)"
  let ?se = "computeResiduals (map s_value series) (smoothed ?h)"
  let ?steps = "[1..\<lceil>forecastHours F / bucketHours F\<rceil>]"
  from assms(1) have ne: "series \<noteq> []" by auto
  then have lt: "last (map s_timestamp series) = Some t"
    using assms(2) by (simp add: last_map)
  have "\<forall>step\<in>set ?steps. \<exists>p. predict_step F (Some t) (level ?h) (trend_of ?h) ?se step = Inr p"
    using assms(3) predict_step_returns by simp
  then obtain ps where "predict_loop F (Some t) (level ?h) (trend_of ?h) ?se ?steps = Inr ps"
    and "length ps = length ?steps"
    using predict_loop_returns by blast
  then show ?thesis
    using assms(1) lt by (simp add: forecast_def Let_def)
qed

text \<open>
  C8: every prediction that \<open>forecast\<close> emits has \<open>lower \<le> predicted \<le> upper\<close> and
  \<open>0 \<le> lower\<close>.
\<close>

theorem forecast_bounds:
  assumes "forecast (Forecaster options) series = Inr r" and "p \<in> set (predictions_of r)"
  shows "lower p \<le> predicted p \<and> predicted p \<le> upper p \<and> 0 \<le> lower p"
proof -
  let ?F = "Forecaster options"
  let ?h = "holtSmoothing ?F (map s_value series)"
  let ?se = "computeResiduals (map s_value series) (smoothed ?h)"
  let ?steps = "[1..\<lceil>forecastHours ?F / bucketHours ?F\<rceil>]"
  from assms obtain ps where
    ps: "predict_loop ?F (last (map s_timestamp series)) (level ?h) (trend_of ?h) ?se ?steps
      = Inr ps"
    and "p \<in> set ps"
    by (auto simp add: forecast_def Let_def split: if_splits sum.splits)
  then obtain step where "step \<in> set ?steps"
    and "predict_step ?F (last (map s_timestamp series)) (level ?h) (trend_of ?h) ?se step
      = Inr p"
    using predict_loop_members by blast
  then show ?thesis
    using predict_step_bounds [of ?F _ _ _ ?se step p] computeResiduals_nonneg by simp
qed

lemma Forecaster_defaults:
  "Forecaster \<lparr>opt_alpha = None, opt_trendAlpha = None, opt_forecastHours = None,
      opt_bucketHours = None\<rparr>
   = \<lparr>alpha = 0.3, trendAlpha = 0.1, forecastHours = 48, bucketHours = 6\<rparr>"
  by (simp add: Forecaster_def or_default_def)

theorem forecast_bounds_witness:
  "\<exists>r p. forecast
       (Forecaster \<lparr>opt_alpha = None, opt_trendAlpha = None, opt_forecastHours = None,
        opt_bucketHours = None\<rparr>)
       [\<lparr>s_timestamp = Some 0, s_value = 10\<rparr>, \<lparr>s_timestamp = Some 21600000, s_value = 12\<rparr>,
      \<lparr>s_timestamp = Some 43200000, s_value = 9\<rparr>,
      \<lparr>s_timestamp = Some 64800000, s_value = 50\<rparr>] = Inr r \<and>
     p \<in> set (predictions_of r) \<and>
     lower p \<le> predicted p \<and> predicted p \<le> upper p \<and> 0 \<le> lower p"
proof -
  let ?F = "Forecaster \<lparr>opt_alpha = None, opt_trendAlpha = None, opt_forecastHours = None,
      opt_bucketHours = None\<rparr>"
  let ?S = "[\<lparr>s_timestamp = Some 0, s_value = 10\<rparr>, \<lparr>s_timestamp = Some 21600000, s_value = 12\<rparr>,
      \<lparr>s_timestamp = Some 43200000, s_value = 9\<rparr>,
      \<lparr>s_timestamp = Some 64800000, s_value = 50\<rparr>]"
  have steps: "\<lceil>forecastHours ?F / bucketHours ?F\<rceil> = 8"
    by (simp add: Forecaster_defaults)
  have len: "4 \<le> length ?S" by simp
  have lt: "s_timestamp (last ?S) = Some 64800000" by simp
  have rng: "\<forall>step\<in>{1..\<lceil>forecastHours ?F / bucketHours ?F\<rceil>}.
      \<bar>real_of_int 64800000 + real_of_int step * bucketHours ?F * 3600000\<bar>
        \<le> 8640000000000000"
    unfolding steps by (auto simp add: Forecaster_defaults)
  from forecast_returns [OF len lt rng]
  obtain fd where fd: "forecast ?F ?S = Inr (Forecast fd)" and "length (predictions fd) = 8"
    by (auto simp add: steps)
  then obtain p where p: "p \<in> set (predictions_of (Forecast fd))"
    by (cases "predictions fd") auto
  from forecast_bounds [OF fd p] fd p show ?thesis
    by blast
qed












section \<open>Properties of the time aggregator\<close>

lemma records_at_push_to:
  "records_at (push_to key r bs) k = records_at bs k @ (if k = key then [r] else [])"
  by (induction bs) (auto simp add: records_at_def)

lemma keys_push_to:
  "map fst (push_to key r bs) = (if key \<in> set (map fst bs) then map fst bs else map fst bs @ [key])"
  by (induction bs) force+

lemma distinct_push_to: "distinct (map fst bs) \<Longrightarrow> distinct (map fst (push_to key r bs))"
  by (simp add: keys_push_to)

lemma size_push_to:
  "sum_list (map (\<lambda>b. length (snd b)) (push_to key r bs))
     = Suc (sum_list (map (\<lambda>b. length (snd b)) bs))"
  by (induction bs) auto

lemma timeBucket_loop_props:
  assumes "timeBucket_loop tz ts bh records buckets = Inr out"
  shows "(distinct (map fst buckets) \<longrightarrow> distinct (map fst out)) \<and>
     (\<forall>k. records_at out k
        = records_at buckets k @ filter (\<lambda>r. toISOString (bucketStart tz bh (ts r)) = Inr k) records) \<and>
     sum_list (map (\<lambda>b. length (snd b)) out)
        = sum_list (map (\<lambda>b. length (snd b)) buckets) + length records"
  using assms
proof (induction records arbitrary: buckets)
  case Nil
  then show ?case by simp
next
  case (Cons r records)
  from Cons.prems obtain key where key: "toISOString (bucketStart tz bh (ts r)) = Inr key"
    and rest: "timeBucket_loop tz ts bh records (push_to key r buckets) = Inr out"
    by (auto split: sum.splits)
  from Cons.IH [OF rest] show ?case
    using key by (auto simp add: records_at_push_to distinct_push_to size_push_to)
qed

lemma records_at_member:
  "distinct (map fst bs) \<Longrightarrow> (k, rs) \<in> set bs \<Longrightarrow> records_at bs k = rs"
  by (simp add: records_at_def)

lemma timeBucket_props:
  assumes "timeBucket tz ts records bh = Inr out"
  shows "distinct (map fst out)"
    and "(k, rs) \<in> set out \<Longrightarrow>
      rs = filter (\<lambda>r. toISOString (bucketStart tz bh (ts r)) = Inr k) records"
    and "sum_list (map (\<lambda>b. length (snd b)) out) = length records"
proof -
  from assms have loop: "timeBucket_loop tz ts bh records [] = Inr out"
    by (simp add: timeBucket_def)
  from timeBucket_loop_props [OF loop] show d: "distinct (map fst out)"
    and "sum_list (map (\<lambda>b. length (snd b)) out) = length records"
    by simp_all
  show "rs = filter (\<lambda>r. toISOString (bucketStart tz bh (ts r)) = Inr k) records"
    if "(k, rs) \<in> set out"
    using timeBucket_loop_props [OF loop] records_at_member [OF d that]
    by (simp add: records_at_def)
qed

lemma sum_increment: "sum_list (map snd (increment k m)) = sum_list (map snd m) + 1"
  by (induction m) auto

lemma nonneg_increment:
  "list_all (\<lambda>e. 0 \<le> snd e) m \<Longrightarrow> list_all (\<lambda>e. 0 \<le> snd e) (increment k m)"
  by (induction m) auto

lemma sum_count_fold:
  "sum_list (map snd (fold (\<lambda>r m. increment (f r) m) rs init))
     = sum_list (map snd init) + int (length rs)"
  by (induction rs arbitrary: init) (simp_all add: sum_increment)

lemma nonneg_count_fold:
  "list_all (\<lambda>e. 0 \<le> snd e) init \<Longrightarrow>
     list_all (\<lambda>e. 0 \<le> snd e) (fold (\<lambda>r m. increment (f r) m) rs init)"
  by (induction rs arbitrary: init) (simp_all add: nonneg_increment)

lemma map_insort_key: "map f (insort_key f x xs) = insort (f x) (map f xs)"
  by (induction xs) simp_all

lemma map_sort_key: "map f (sort_key f xs) = sort (map f xs)"
  by (induction xs) (simp_all add: map_insort_key)

lemma sum_list_insort_key:
  "sum_list (map f (insort_key g x xs)) = f x + sum_list (map f xs)"
  for f :: "'a \<Rightarrow> int"
  by (induction xs) simp_all

lemma sum_list_sort_key:
  "sum_list (map f (sort_key g xs)) = sum_list (map f xs)"
  for f :: "'a \<Rightarrow> int"
  by (induction xs) (simp_all add: sum_list_insort_key)

lemma admission_bucket_props:
  "timestamp (admission_bucket k rs) = k"
  "total (admission_bucket k rs) = int (length rs)"
  "sum_list (map snd (byDisease (admission_bucket k rs))) = int (length rs)"
  "sum_list (map snd (byRegion (admission_bucket k rs))) = int (length rs)"
  "sum_list (map snd (bySeverity (admission_bucket k rs))) = int (length rs)"
  "list_all (\<lambda>e. 0 \<le> snd e) (byDisease (admission_bucket k rs))"
  "list_all (\<lambda>e. 0 \<le> snd e) (byRegion (admission_bucket k rs))"
  "list_all (\<lambda>e. 0 \<le> snd e) (bySeverity (admission_bucket k rs))"
  by (simp_all add: admission_bucket_def sum_count_fold nonneg_count_fold)

text \<open>
  \<open>aggregateAdmissions\<close> returns as soon as the bucket key of every record is defined,
  that is, every timestamp is a date and the bucket width is not 0.
\<close>

lemma timeBucket_loop_returns:
  "\<forall>r\<in>set records. \<exists>k. toISOString (bucketStart tz bh (ts r)) = Inr k \<Longrightarrow>
     \<exists>out. timeBucket_loop tz ts bh records buckets = Inr out"
proof (induction records arbitrary: buckets)
  case Nil
  then show ?case by simp
next
  case (Cons r records)
  then obtain k where "toISOString (bucketStart tz bh (ts r)) = Inr k"
    by auto
  with Cons show ?case by simp
qed

lemma aggregateAdmissions_returns:
  assumes "\<forall>r\<in>set admissions. \<exists>k. toISOString (bucketStart tz bh (a_timestamp r)) = Inr k"
  shows "\<exists>result. aggregateAdmissions tz admissions bh = Inr result"
proof -
  from timeBucket_loop_returns [OF assms] obtain out
    where "timeBucket_loop tz a_timestamp bh admissions [] = Inr out"
    by blast
  then show ?thesis
    by (simp add: aggregateAdmissions_def timeBucket_def)
qed

text \<open>
  C10: in every bucket that \<open>aggregateAdmissions\<close> returns, \<open>total\<close> is the number
  of input records whose bucket key is the timestamp of the bucket, the counts of each of
  the three breakdowns sum to \<open>total\<close>, no count is negative, the buckets have
  different timestamps, and the totals of all buckets sum to the number of input records.
\<close>

theorem aggregateAdmissions_counts:
  assumes "aggregateAdmissions tz admissions bh = Inr result"
  shows "(\<forall>b\<in>set result.
            total b = int (length (filter
              (\<lambda>r. toISOString (bucketStart tz bh (a_timestamp r)) = Inr (timestamp b))
              admissions)) \<and>
            sum_list (map snd (byDisease b)) = total b \<and>
            sum_list (map snd (byRegion b)) = total b \<and>
            sum_list (map snd (bySeverity b)) = total b \<and>
            list_all (\<lambda>e. 0 \<le> snd e) (byDisease b @ byRegion b @ bySeverity b) \<and>
            0 \<le> total b) \<and>
         distinct (map timestamp result) \<and>
         sum_list (map total result) = int (length admissions)"
proof -
  from assms obtain buckets where tb: "timeBucket tz a_timestamp admissions bh = Inr buckets"
    and result: "result = sort_key timestamp (map (\<lambda>(key, records). admission_bucket key records) buckets)"
    by (auto simp add: aggregateAdmissions_def split: sum.splits)
  let ?mk = "\<lambda>(key, records). admission_bucket key records"
  have ts: "map timestamp (map ?mk buckets) = map fst buckets"
    by (induction buckets) (auto simp add: admission_bucket_props)
  have tot: "map total (map ?mk buckets) = map (\<lambda>b. int (length (snd b))) buckets"
    by (induction buckets) (auto simp add: admission_bucket_props)
  have "distinct (map timestamp result)"
    unfolding result map_sort_key ts using timeBucket_props(1) [OF tb]
    by simp
  moreover have "sum_list (map total result) = int (length admissions)"
  proof -
    have "sum_list (map total result) = sum_list (map total (map ?mk buckets))"
      unfolding result by (rule sum_list_sort_key)
    also have "\<dots> = int (sum_list (map (\<lambda>b. length (snd b)) buckets))"
      unfolding tot by (induction buckets) simp_all
    finally show ?thesis
      using timeBucket_props(3) [OF tb] by simp
  qed
  moreover have "total b = int (length (filter
              (\<lambda>r. toISOString (bucketStart tz bh (a_timestamp r)) = Inr (timestamp b))
              admissions)) \<and>
            sum_list (map snd (byDisease b)) = total b \<and>
            sum_list (map snd (byRegion b)) = total b \<and>
            sum_list (map snd (bySeverity b)) = total b \<and>
            list_all (\<lambda>e. 0 \<le> snd e) (byDisease b @ byRegion b @ bySeverity b) \<and>
            0 \<le> total b" if "b \<in> set result" for b
  proof -
    from that obtain k rs where krs: "(k, rs) \<in> set buckets" and b: "b = admission_bucket k rs"
      unfolding result by auto
    from timeBucket_props(2) [OF tb krs]
    have rs: "rs = filter
        (\<lambda>r. toISOString (bucketStart tz bh (a_timestamp r)) = Inr k) admissions" .
    show ?thesis
      unfolding b using admission_bucket_props [of k rs] rs by auto
  qed
  ultimately show ?thesis by blast
qed

text \<open>
  Three admissions in the time zone UTC+5:30, two of them in the bucket that starts at
  local midnight and one in the next bucket.
\<close>

lemma aggregateAdmissions_example:
  "aggregateAdmissions 19800000
      [\<lparr>a_timestamp = Some 0, a_disease = ''Cholera'', a_severity = ''Severe'',
        a_regionId = ''region-1'', a_patientAge = 34, a_isAnomaly = False\<rparr>,
       \<lparr>a_timestamp = Some 3600000, a_disease = ''Typhoid'', a_severity = ''Mild'',
        a_regionId = ''region-1'', a_patientAge = 51, a_isAnomaly = True\<rparr>,
       \<lparr>a_timestamp = Some 1000, a_disease = ''Cholera'', a_severity = ''Critical'',
        a_regionId = ''region-2'', a_patientAge = 7, a_isAnomaly = False\<rparr>] 6
   = Inr
      [\<lparr>timestamp = - 19800000, total = 2, byDisease = [(''Cholera'', 2)],
        byRegion = [(''region-1'', 1), (''region-2'', 1)],
        bySeverity = [(''Mild'', 0), (''Moderate'', 0), (''Severe'', 1), (''Critical'', 1)],
        avgAge = 21, anomalyCount = 0\<rparr>,
       \<lparr>timestamp = 1800000, total = 1, byDisease = [(''Typhoid'', 1)],
        byRegion = [(''region-1'', 1)],
        bySeverity = [(''Mild'', 1), (''Moderate'', 0), (''Severe'', 0)],
        avgAge = 51, anomalyCount = 1\<rparr>]"
  by (simp add: aggregateAdmissions_def timeBucket_def bucketStart_def timeClip_def
      toISOString_def msPerDay_def msPerHour_def Let_def admission_bucket_def js_round_def)

theorem aggregateAdmissions_counts_witness:
  "\<exists>result. aggregateAdmissions 19800000
      [\<lparr>a_timestamp = Some 0, a_disease = ''Cholera'', a_severity = ''Severe'',
        a_regionId = ''region-1'', a_patientAge = 34, a_isAnomaly = False\<rparr>,
       \<lparr>a_timestamp = Some 3600000, a_disease = ''Typhoid'', a_severity = ''Mild'',
        a_regionId = ''region-1'', a_patientAge = 51, a_isAnomaly = True\<rparr>,
       \<lparr>a_timestamp = Some 1000, a_disease = ''Cholera'', a_severity = ''Critical'',
        a_regionId = ''region-2'', a_patientAge = 7, a_isAnomaly = False\<rparr>] 6 = Inr result \<and>
    list_all (\<lambda>b.
        total b = int (length (filter
          (\<lambda>r. toISOString (bucketStart 19800000 6 (a_timestamp r)) = Inr (timestamp b))
      [\<lparr>a_timestamp = Some 0, a_disease = ''Cholera'', a_severity = ''Severe'',
        a_regionId = ''region-1'', a_patientAge = 34, a_isAnomaly = False\<rparr>,
       \<lparr>a_timestamp = Some 3600000, a_disease = ''Typhoid'', a_severity = ''Mild'',
        a_regionId = ''region-1'', a_patientAge = 51, a_isAnomaly = True\<rparr>,
       \<lparr>a_timestamp = Some 1000, a_disease = ''Cholera'', a_severity = ''Critical'',
        a_regionId = ''region-2'', a_patientAge = 7, a_isAnomaly = False\<rparr>])) \<and>
        sum_list (map snd (byDisease b)) = total b \<and>
        sum_list (map snd (byRegion b)) = total b \<and>
        sum_list (map snd (bySeverity b)) = total b \<and>
        list_all (\<lambda>e. 0 \<le> snd e) (byDisease b @ byRegion b @ bySeverity b) \<and>
        0 \<le> total b) result \<and>
    distinct (map timestamp result) \<and>
    sum_list (map total result) = 3"
proof -
  let ?A = "[\<lparr>a_timestamp = Some 0, a_disease = ''Cholera'', a_severity = ''Severe'',
        a_regionId = ''region-1'', a_patientAge = 34, a_isAnomaly = False\<rparr>,
       \<lparr>a_timestamp = Some 3600000, a_disease = ''Typhoid'', a_severity = ''Mild'',
        a_regionId = ''region-1'', a_patientAge = 51, a_isAnomaly = True\<rparr>,
       \<lparr>a_timestamp = Some 1000, a_disease = ''Cholera'', a_severity = ''Critical'',
        a_regionId = ''region-2'', a_patientAge = 7, a_isAnomaly = False\<rparr>]"
  let ?R = "[\<lparr>timestamp = - 19800000, total = 2, byDisease = [(''Cholera'', 2)],
        byRegion = [(''region-1'', 1), (''region-2'', 1)],
        bySeverity = [(''Mild'', 0), (''Moderate'', 0), (''Severe'', 1), (''Critical'', 1)],
        avgAge = 21, anomalyCount = 0\<rparr>,
       \<lparr>timestamp = 1800000, total = 1, byDisease = [(''Typhoid'', 1)],
        byRegion = [(''region-1'', 1)],
        bySeverity = [(''Mild'', 1), (''Moderate'', 0), (''Severe'', 0)],
        avgAge = 51, anomalyCount = 1\<rparr>]"
  have ev: "aggregateAdmissions 19800000 ?A 6 = Inr ?R"
    by (rule aggregateAdmissions_example)
  have len: "int (length ?A) = 3"
    by simp
  from aggregateAdmissions_counts [OF ev] ev show ?thesis
    unfolding list_all_iff len by blast
qed

section \<open>The pipeline and the clock\<close>

lemma forecastAll_clock:
  "forecastAll F now' aggregated
     = map_sum id (\<lambda>fa. fa\<lparr>generatedAt := now'\<rparr>) (forecastAll F now aggregated)"
  by (simp add: forecastAll_def split: sum.splits)

lemma classifyAll_generatedAt:
  "classifyAll regions admissionAgg waterAgg (Some (fa\<lparr>generatedAt := t\<rparr>))
     = classifyAll regions admissionAgg waterAgg (Some fa)"
  by (simp add: classifyAll_def)

lemma insort_key_map_same:
  assumes "\<And>x. f (g x) = f x"
  shows "insort_key f (g x) (map g xs) = map g (insort_key f x xs)"
  by (induction xs) (simp_all add: assms)

lemma sort_key_map_same:
  assumes "\<And>x. f (g x) = f x"
  shows "sort_key f (map g xs) = map g (sort_key f xs)"
  by (induction xs) (simp_all add: insort_key_map_same [of f g, OF assms])

lemma retime_risk_alerts: "map (retime now') (risk_alerts now rcs) = risk_alerts now' rcs"
  by (induction rcs) (simp_all add: risk_alerts_def retime_def)

lemma retime_anomaly_alerts: "map (retime now') (anomaly_alerts ov) = anomaly_alerts ov"
  by (simp add: anomaly_alerts_def retime_def split: option.splits)

lemma retime_disease_alerts: "map (retime now') (disease_alerts bd) = disease_alerts bd"
proof (cases bd)
  case None
  then show ?thesis by (simp add: disease_alerts_def)
next
  case (Some es)
  have "map (retime now') (concat (map (\<lambda>(disease, samples).
             map (\<lambda>anomaly.
                    \<lparr>alert_type = ''DISEASE_SPIKE'', alert_severity = ''high'',
                     alert_timestamp = an_timestamp anomaly, alert_regionId = None,
                     alert_disease = Some disease, alert_riskScore = None,
                     alert_zScore = Some (zScore anomaly),
                     alert_value = Some (an_value anomaly)\<rparr>)
               (slice_from (- 2) (filter isAnomaly samples))) es)) = 
      concat (map (\<lambda>(disease, samples).
             map (\<lambda>anomaly.
                    \<lparr>alert_type = ''DISEASE_SPIKE'', alert_severity = ''high'',
                     alert_timestamp = an_timestamp anomaly, alert_regionId = None,
                     alert_disease = Some disease, alert_riskScore = None,
                     alert_zScore = Some (zScore anomaly),
                     alert_value = Some (an_value anomaly)\<rparr>)
               (slice_from (- 2) (filter isAnomaly samples))) es)"
    by (induction es) (auto simp add: retime_def)
  with Some show ?thesis by (simp add: disease_alerts_def)
qed

lemma generateAlerts_clock:
  "generateAlerts now' rcs anoms = map (retime now') (generateAlerts now rcs anoms)"
proof -
  let ?rank = "\<lambda>a. severityRank (alert_severity a)"
  have same: "?rank (retime now' a) = ?rank a" for a
    by (simp add: retime_def)
  have "map (retime now') (generateAlerts now rcs anoms)
      = sort_key ?rank (map (retime now')
          (risk_alerts now rcs @
           anomaly_alerts (case anoms of None \<Rightarrow> None | Some a \<Rightarrow> an_overall a) @
           disease_alerts (case anoms of None \<Rightarrow> None | Some a \<Rightarrow> an_byDisease a)))"
    unfolding generateAlerts_def
    by (rule sort_key_map_same [of ?rank "retime now'", symmetric]) (rule same)
  also have "\<dots> = generateAlerts now' rcs anoms"
    unfolding generateAlerts_def
    by (simp add: retime_risk_alerts retime_anomaly_alerts retime_disease_alerts)
  finally show ?thesis by simp
qed

text \<open>
  C3, as amended: the outcome of a run read at other instants of the clock is the outcome
  of the first run with two things replaced, the \<open>generatedAt\<close> field of the forecasts
  and the timestamps of the risk alerts. The aggregates, the anomalies, the forecasts
  proper, the classifications, the other fields of the alerts, and whether the run raises,
  do not depend on the clock.
\<close>

theorem loadAndProcess_clock:
  "loadAndProcess tz clockF' clockA' regions admissions waterQuality
     = map_sum id (with_clock clockF' clockA')
         (loadAndProcess tz clockF clockA regions admissions waterQuality)"
proof -
  show ?thesis
    unfolding loadAndProcess_def Let_def with_clock_def
    using forecastAll_clock [of _ clockF' _ clockF]
    by (auto simp add: classifyAll_generatedAt generateAlerts_clock [of clockA' _ _ clockA]
        split: sum.splits)
qed

text \<open>
  C3 as stated makes the forecast output of two runs on the same input identical. Two runs
  on empty data files at the clock readings 0 and 1 return forecasts that differ in
  \<open>generatedAt\<close>.
\<close>

theorem loadAndProcess_generatedAt_counterexample:
  "map_sum id sn_forecasts (loadAndProcess 0 0 0 [] [] [])
     = Inr \<lparr>overall = Insufficient,
        fa_byDisease = [(''Cholera'', Insufficient), (''Typhoid'', Insufficient),
          (''Dengue'', Insufficient), (''Malaria'', Insufficient)],
        fa_byRegion = [], generatedAt = 0, forecastHorizon = 48\<rparr> \<and>
   map_sum id sn_forecasts (loadAndProcess 0 1 0 [] [] [])
     = Inr \<lparr>overall = Insufficient,
        fa_byDisease = [(''Cholera'', Insufficient), (''Typhoid'', Insufficient),
          (''Dengue'', Insufficient), (''Malaria'', Insufficient)],
        fa_byRegion = [], generatedAt = 1, forecastHorizon = 48\<rparr>"
  by (simp add: loadAndProcess_def aggregateAdmissions_def aggregateWaterQuality_def
      timeBucket_def forecastAll_def forecast_def overallSeries_def diseaseSeries_def
      regionIds_of_def unique_def diseases_def Forecaster_def or_default_def Let_def)

end
